theory Spec2Isabelle
  imports Main "HOL-Library.Signed_Division" "HOL-Library.AList" "HOL-Library.Sublist"
    "HOL-Library.Word"
begin

section \<open>Go values shared by the packages\<close>

text \<open>
  A Go \<^verbatim>\<open>error\<close> is either created with a message (\<^verbatim>\<open>fmt.Errorf\<close>,
  \<^verbatim>\<open>errors.New\<close>) or wraps a cause with a new message (\<^verbatim>\<open>errors.Wrap\<close>,
  \<^verbatim>\<open>errors.Wrapf\<close> of github.com/pkg/errors, and \<^verbatim>\<open>util.LoggingErrorMsg\<close>, which
  logs and then wraps). The format verbs of the source are expanded: the message stored
  is the formatted string. A nil error is \<open>None\<close> of \<open>error option\<close>.
\<close>

datatype error = Errorf string | Wrap error string

text \<open>\<^verbatim>\<open>err.Error()\<close>: a wrapped error prints its own message, a colon and the cause.\<close>

fun Error :: "error \<Rightarrow> string" where
  "Error (Errorf msg) = msg"
| "Error (Wrap cause msg) = msg @ '': '' @ Error cause"

definition LoggingErrorMsg :: "error \<Rightarrow> string \<Rightarrow> error" where
  "LoggingErrorMsg err msg = Wrap err msg"

text \<open>
  A call that can panic (an explicit \<^verbatim>\<open>panic\<close>, a nil dereference) either panics or
  returns its results.
\<close>

datatype 'a outcome = Panics | Returns 'a

section \<open>Integration helpers: \<^verbatim>\<open>src/integration/common.go\<close>\<close>

text \<open>
  \<^verbatim>\<open>func is2xxResponse(statusCode int) bool { return statusCode/100 != 2 }\<close>

  Go's \<^verbatim>\<open>/\<close> on \<^verbatim>\<open>int\<close> truncates towards zero, which is \<open>sdiv\<close> on \<open>int\<close>
  (not HOL's \<open>div\<close>, which rounds down). Dividing by 100 cannot overflow, so the
  machine width of \<^verbatim>\<open>int\<close> plays no part.
\<close>

definition is2xxResponse :: "int \<Rightarrow> bool" where
  "is2xxResponse statusCode = (statusCode sdiv 100 \<noteq> 2)"

text \<open>
  What the network gives \<^verbatim>\<open>get\<close> and \<^verbatim>\<open>put\<close>: \<^verbatim>\<open>http.Get\<close> / \<^verbatim>\<open>client.Do\<close>
  either fails or yields a response with a status code, and \<^verbatim>\<open>io.ReadAll(resp.Body)\<close>
  either fails or yields the bytes of the body. Both helpers return the Go pair
  \<^verbatim>\<open>(string, error)\<close>.
\<close>

record Response =
  StatusCode :: int
  Body :: "error + string"

type_synonym http_result = "error + Response"

definition get :: "(string \<Rightarrow> http_result) \<Rightarrow> string \<Rightarrow> string \<times> error option" where
  "get http_Get url =
     (case http_Get url of
        Inl err \<Rightarrow> ('''', Some (Wrap err (''getting url: '' @ url)))
      | Inr resp \<Rightarrow>
          (case Body resp of
             Inl err \<Rightarrow> ('''', Some (Wrap err ''parsing body''))
           | Inr body \<Rightarrow>
               if is2xxResponse (StatusCode resp)
               then ('''', Some (Errorf (''status code not in the 200s. body: '' @ body)))
               else (body, None)))"

text \<open>
  \<^verbatim>\<open>compactJSONOutput\<close> panics when \<^verbatim>\<open>json.Compact\<close> refuses its argument.
  \<^verbatim>\<open>json.Compact\<close> belongs to a library and is a parameter.
\<close>

definition compactJSONOutput :: "(string \<Rightarrow> error + string) \<Rightarrow> string \<Rightarrow> string outcome" where
  "compactJSONOutput json_Compact jsonString =
     (case json_Compact jsonString of
        Inl err \<Rightarrow> Panics
      | Inr compact \<Rightarrow> Returns compact)"

text \<open>
  \<^verbatim>\<open>put\<close> first logs the compacted data, so it panics on data that is not JSON; then
  it builds the request (\<^verbatim>\<open>http.NewRequest\<close> may fail) and sends it. \<open>show_int\<close>
  stands for the \<^verbatim>\<open>%v\<close> rendering of the status code in the message.
\<close>

definition put ::
  "(string \<Rightarrow> error + string) \<Rightarrow> (string \<Rightarrow> string \<Rightarrow> error + 'req) \<Rightarrow>
     ('req \<Rightarrow> http_result) \<Rightarrow> (int \<Rightarrow> string) \<Rightarrow>
     string \<Rightarrow> string \<Rightarrow> (string \<times> error option) outcome" where
  "put json_Compact http_NewRequest client_Do show_int url json =
     (case compactJSONOutput json_Compact json of
        Panics \<Rightarrow> Panics
      | Returns logged \<Rightarrow>
          (case http_NewRequest url json of
             Inl err \<Rightarrow> Returns ('''', Some (Wrap err ''building http req''))
           | Inr req \<Rightarrow>
               (case client_Do req of
                  Inl err \<Rightarrow> Returns ('''', Some (Wrap err ''client http client''))
                | Inr resp \<Rightarrow>
                    (case Body resp of
                       Inl err \<Rightarrow> Returns ('''', Some (Wrap err ''parsing body''))
                     | Inr body \<Rightarrow>
                         if is2xxResponse (StatusCode resp)
                         then Returns ('''', Some (Errorf (''status code ''
                                @ show_int (StatusCode resp)
                                @ '' not in the 200s. body: '' @ body)))
                         else Returns (body, None)))))"

section \<open>The DID service: \<^verbatim>\<open>package did\<close>\<close>

type_synonym Method = string

definition KeyMethod :: Method where
  "KeyMethod = ''key''"

text \<open>
  \<^verbatim>\<open>Service\<close>: \<^verbatim>\<open>handlers\<close> is a Go map, kept here as an association list with
  one entry per key (\<open>AList.update\<close> replaces the entry of a key that is present), so
  that \<^verbatim>\<open>len\<close> is the length of the list. \<^verbatim>\<open>storage\<close> is an interface value and
  may be nil (\<open>None\<close>). The field \<^verbatim>\<open>log\<close> is never read or written by the code
  modelled here and is left out. \<open>'h\<close> is the handler value, \<open>'s\<close> the storage.
\<close>

record ('h, 's) Service =
  handlers :: "(Method \<times> 'h) list"
  storage :: "'s option"

text \<open>\<^verbatim>\<open>framework.Status\<close> with its two states (package framework is not part of the sources).\<close>

datatype StatusState = StatusReady | StatusNotReady

record framework_Status =
  Status_state :: StatusState
  Message :: string

text \<open>
  \<^verbatim>\<open>Status\<close> has a value receiver and assigns to nothing. The model returns the
  service next to the report, so that the absence of an effect is a statement about
  the function and not about its type.
\<close>

definition Status :: "('h, 's) Service \<Rightarrow> framework_Status \<times> ('h, 's) Service" where
  "Status s =
     (if storage s = None \<or> length (handlers s) = 0
      then (\<lparr>Status_state = StatusNotReady,
              Message = ''storage not loaded and/or no DID methods loaded''\<rparr>, s)
      else (\<lparr>Status_state = StatusReady, Message = ''''\<rparr>, s))"

text \<open>
  \<^verbatim>\<open>GetSupportedMethods\<close> appends every key of the map. Go leaves the iteration order
  of a map open; the model lists the keys in the order of the association list, and
  only the set of the result is meaningful.
\<close>

definition GetSupportedMethods :: "('h, 's) Service \<Rightarrow> Method list" where
  "GetSupportedMethods s = map fst (handlers s)"

definition GetHandler :: "('h, 's) Service \<Rightarrow> Method \<Rightarrow> 'h option \<times> error option" where
  "GetHandler s method =
     (case map_of (handlers s) method of
        None \<Rightarrow> (None, Some (Errorf (''could not get handler for DID method: '' @ method)))
      | Some handler \<Rightarrow> (Some handler, None))"

text \<open>
  \<^verbatim>\<open>instantiateHandlerForMethod\<close> has a pointer receiver: it returns the error and
  the service as it leaves it. \<^verbatim>\<open>NewKeyDIDHandler\<close> is not part of the sources and is
  a parameter; it returns the Go pair (handler, error).
\<close>

definition instantiateHandlerForMethod ::
  "('s option \<Rightarrow> 'h \<times> error option) \<Rightarrow> ('h, 's) Service \<Rightarrow> Method \<Rightarrow>
     error option \<times> ('h, 's) Service" where
  "instantiateHandlerForMethod NewKeyDIDHandler s method =
     (if method = KeyMethod then
        (case NewKeyDIDHandler (storage s) of
           (handler, Some err) \<Rightarrow>
             (Some (Errorf (''could not instnatiate did:'' @ KeyMethod @ '' handler'')), s)
         | (handler, None) \<Rightarrow>
             (None, s\<lparr>handlers := AList.update method handler (handlers s)\<rparr>))
      else (Some (Errorf (''unsupported DID method: '' @ method)), s))"

text \<open>The \<^verbatim>\<open>for _, m := range methods\<close> loop of \<^verbatim>\<open>NewDIDService\<close>, leaving at the first error.\<close>

fun instantiateAll ::
  "('s option \<Rightarrow> 'h \<times> error option) \<Rightarrow> ('h, 's) Service \<Rightarrow> Method list \<Rightarrow>
     error option \<times> ('h, 's) Service" where
  "instantiateAll NewKeyDIDHandler svc [] = (None, svc)"
| "instantiateAll NewKeyDIDHandler svc (m # ms) =
     (case instantiateHandlerForMethod NewKeyDIDHandler svc m of
        (Some err, svc') \<Rightarrow> (Some (Wrap err ''could not instantiate DID svc''), svc')
      | (None, svc') \<Rightarrow> instantiateAll NewKeyDIDHandler svc' ms)"

text \<open>
  \<^verbatim>\<open>NewDIDService\<close> returns the Go pair \<^verbatim>\<open>(*Service, error)\<close>; a nil pointer is
  \<open>None\<close>. \<^verbatim>\<open>didstorage.NewDIDStorage\<close> is not part of the sources and is a parameter.
  The \<^verbatim>\<open>log\<close> argument is unused by the source.
\<close>

definition NewDIDService ::
  "('ss \<Rightarrow> 's option \<times> error option) \<Rightarrow> ('s option \<Rightarrow> 'h \<times> error option) \<Rightarrow>
     Method list \<Rightarrow> 'ss \<Rightarrow> ('h, 's) Service option \<times> error option" where
  "NewDIDService NewDIDStorage NewKeyDIDHandler methods s =
     (case NewDIDStorage s of
        (didStorage, Some err) \<Rightarrow>
          (None, Some (Wrap err ''could not instantiate DID storage for DID service''))
      | (didStorage, None) \<Rightarrow>
          (case instantiateAll NewKeyDIDHandler
                  \<lparr>handlers = [], storage = didStorage\<rparr> methods of
             (Some err, svc) \<Rightarrow> (None, Some err)
           | (None, svc) \<Rightarrow> (Some svc, None)))"

section \<open>Resolution and verification: \<^verbatim>\<open>src/internal/did/access.go\<close>\<close>

text \<open>
  Both functions read \<^verbatim>\<open>resolved.Document\<close> through the pointer the resolver
  returned. A resolver that returns a nil result with a nil error makes that read a nil
  dereference, a panic.
\<close>

text \<open>
  \<^verbatim>\<open>resolution.ResolutionResult\<close> (ssi-sdk), with the one field the code reads, and
  \<^verbatim>\<open>resolution.Resolver\<close>: \<^verbatim>\<open>Resolve(ctx, id, opts...)\<close> returns the Go pair
  \<^verbatim>\<open>(*ResolutionResult, error)\<close>. An option value may be nil.
\<close>

record 'doc ResolutionResult =
  Document :: 'doc

type_synonym ('ctx, 'opt, 'doc) Resolver =
  "'ctx \<Rightarrow> string \<Rightarrow> 'opt option list \<Rightarrow> 'doc ResolutionResult option \<times> error option"

text \<open>
  \<^verbatim>\<open>ResolveKeyForDID\<close>. \<^verbatim>\<open>didsdk.GetKeyFromVerificationMethod\<close> belongs to the SDK
  and is a parameter returning the Go pair \<^verbatim>\<open>(crypto.PublicKey, error)\<close>; a public key
  is an interface value and may be nil. The source calls \<^verbatim>\<open>Resolve(ctx, did, nil)\<close>:
  one option, nil. Calls to \<^verbatim>\<open>logrus\<close> only log and are left out.
\<close>

definition ResolveKeyForDID ::
  "('doc \<Rightarrow> string \<Rightarrow> 'pk option \<times> error option) \<Rightarrow>
     'ctx \<Rightarrow> ('ctx, 'opt, 'doc) Resolver \<Rightarrow> string \<Rightarrow> string \<Rightarrow>
     ('pk option \<times> error option) outcome" where
  "ResolveKeyForDID GetKeyFromVerificationMethod ctx resolver did kid =
     (case resolver ctx did [None] of
        (resolved, Some err) \<Rightarrow> Returns (None, Some (Wrap err (''resolving DID: '' @ did)))
      | (None, None) \<Rightarrow> Panics
      | (Some resolved, None) \<Rightarrow>
          (case GetKeyFromVerificationMethod (Document resolved) kid of
             (pubKey, Some err) \<Rightarrow>
               Returns (None, Some (Wrap err
                 (''getting verification information from DID Document: '' @ did)))
           | (pubKey, None) \<Rightarrow> Returns (pubKey, None)))"

text \<open>
  \<^verbatim>\<open>VerifyTokenFromDID\<close>. \<^verbatim>\<open>keyaccess.NewJWKKeyAccessVerifier\<close> and the verifier's
  \<^verbatim>\<open>Verify\<close> are not part of the sources and are parameters; \<open>'v\<close> is the verifier
  value as the constructor returns it. The source calls \<^verbatim>\<open>Resolve(ctx, did)\<close> here,
  with no option.
\<close>

definition VerifyTokenFromDID ::
  "('doc \<Rightarrow> string \<Rightarrow> 'pk option \<times> error option) \<Rightarrow>
     (string \<Rightarrow> string \<Rightarrow> 'pk option \<Rightarrow> 'v \<times> error option) \<Rightarrow>
     ('v \<Rightarrow> 'tok \<Rightarrow> error option) \<Rightarrow>
     'ctx \<Rightarrow> ('ctx, 'opt, 'doc) Resolver \<Rightarrow> string \<Rightarrow> string \<Rightarrow> 'tok \<Rightarrow>
     error option outcome" where
  "VerifyTokenFromDID GetKeyFromVerificationMethod NewJWKKeyAccessVerifier Verify
       ctx resolver did kid token =
     (case resolver ctx did [] of
        (resolved, Some err) \<Rightarrow> Returns (Some (Wrap err (''resolving DID: '' @ did)))
      | (None, None) \<Rightarrow> Panics
      | (Some resolved, None) \<Rightarrow>
          (case GetKeyFromVerificationMethod (Document resolved) kid of
             (pubKey, Some err) \<Rightarrow>
               Returns (Some (Wrap err
                 (''getting verification information from the DID document: '' @ did)))
           | (pubKey, None) \<Rightarrow>
               (case NewJWKKeyAccessVerifier did kid pubKey of
                  (verifier, Some err) \<Rightarrow>
                    Returns (Some (LoggingErrorMsg err ''could not create application verifier''))
                | (verifier, None) \<Rightarrow>
                    (case Verify verifier token of
                       Some err \<Rightarrow>
                         Returns (Some (LoggingErrorMsg err
                           ''could not verify the application's signature''))
                     | None \<Rightarrow> Returns None))))"

section \<open>The key lifecycle service: \<^verbatim>\<open>package keystore\<close>\<close>

text \<open>
  Of this package the sources hold the tests only (\<^verbatim>\<open>TestStoreAndGetKey\<close>,
  \<^verbatim>\<open>TestRevokeKey\<close>, \<^verbatim>\<open>createKeyStoreService\<close>); the service they call is not part
  of them. Every definition of this section is therefore written from the specification
  and says so.
\<close>

subsection \<open>The transport encoding\<close>

text \<open>
  Modelled from the spec: raw key material is a sequence of bytes (the type is missing
  with the keystore).
\<close>

type_synonym byte = "8 word"

text \<open>
  Modelled from the spec: the transport encoding of key material, missing with the
  keystore. The tests encode with \<^verbatim>\<open>base58.Encode\<close>, which is Base58 over the Bitcoin
  alphabet: the alphabet below, in which the character at position \<open>d\<close> stands for the
  digit \<open>d\<close>.
\<close>

definition b58_alphabet :: string where
  "b58_alphabet = ''123456789ABCDEFGHJKLMNPQRSTUVWXYZabcdefghijkmnopqrstuvwxyz''"

text \<open>
  Modelled from the spec: the value of a list of digits in base \<open>b\<close>, most significant
  digit first (part of the Base58 transport encoding, missing with the keystore).
\<close>

definition from_digits :: "nat \<Rightarrow> nat list \<Rightarrow> nat" where
  "from_digits b ds = foldl (\<lambda>acc d. acc * b + d) 0 ds"

text \<open>
  Modelled from the spec: the digits of \<open>n\<close> in base \<open>b\<close>, most significant first and
  without a leading zero, so that 0 has no digit (part of the Base58 transport encoding,
  missing with the keystore).
\<close>

fun to_digits :: "nat \<Rightarrow> nat \<Rightarrow> nat list" where
  "to_digits b n = (if n = 0 \<or> b < 2 then [] else to_digits b (n div b) @ [n mod b])"

declare to_digits.simps [simp del]

text \<open>
  Modelled from the spec: Base58 encoding of raw bytes (missing with the keystore). Every
  leading zero byte becomes the character \<open>1\<close>; the bytes, read as one big-endian number,
  follow as digits in base 58.
\<close>

definition base58_Encode :: "byte list \<Rightarrow> string" where
  "base58_Encode bs =
     replicate (length (takeWhile (\<lambda>x. x = 0) bs)) (CHR ''1'')
     @ map (\<lambda>d. b58_alphabet ! d) (to_digits 58 (from_digits 256 (map unat bs)))"

text \<open>
  Modelled from the spec: the position of a character in a list, \<open>None\<close> when it does
  not occur (the digit value of a Base58 character; missing with the keystore).
\<close>

fun index_of :: "'a \<Rightarrow> 'a list \<Rightarrow> nat option" where
  "index_of x [] = None"
| "index_of x (y # ys) = (if x = y then Some 0 else map_option Suc (index_of x ys))"

text \<open>
  Modelled from the spec: Base58 decoding (missing with the keystore). The empty string
  and a string with a character outside the alphabet are refused; otherwise every
  leading \<open>1\<close> becomes a zero byte and the digits, read as one number in base 58,
  follow as big-endian bytes.
\<close>

definition base58_Decode :: "string \<Rightarrow> error + byte list" where
  "base58_Decode str =
     (if str = [] then Inl (Errorf ''zero length string'')
      else case those (map (\<lambda>c. index_of c b58_alphabet) str) of
             None \<Rightarrow> Inl (Errorf ''invalid base58 digit'')
           | Some ds \<Rightarrow>
               Inr (replicate (length (takeWhile (\<lambda>c. c = CHR ''1'') str)) 0
                    @ map of_nat (to_digits 256 (from_digits 58 ds))))"

subsection \<open>The clock and the timestamp format\<close>

text \<open>
  Modelled from the spec: a reading of the injected clock (\<open>now() -> timestamp\<close>), as
  the UTC calendar fields the tests set it with
  (\<^verbatim>\<open>time.Date(2023, 06, 23, 0, 0, 0, 0, time.UTC)\<close>). The clock is missing with the
  keystore.
\<close>

record Timestamp =
  year :: nat
  month :: nat
  day :: nat
  hour :: nat
  minute :: nat
  second :: nat

text \<open>
  Modelled from the spec: the character of the last decimal digit of a number (part of
  the fixed timestamp format, missing with the keystore).
\<close>

definition digit_char :: "nat \<Rightarrow> char" where
  "digit_char d = ''0123456789'' ! (d mod 10)"

text \<open>
  Modelled from the spec: a field of the timestamp in two decimal digits (missing with
  the keystore).
\<close>

definition pad2 :: "nat \<Rightarrow> string" where
  "pad2 n = [digit_char (n div 10), digit_char n]"

text \<open>
  Modelled from the spec: the year of the timestamp in four decimal digits (missing with
  the keystore).
\<close>

definition pad4 :: "nat \<Rightarrow> string" where
  "pad4 n = [digit_char (n div 1000), digit_char (n div 100), digit_char (n div 10), digit_char n]"

text \<open>
  Modelled from the spec: the persisted timestamp format, fixed UTC ISO-8601 as in
  \<open>2023-06-23T00:00:00Z\<close> (the formatting is missing with the keystore).
\<close>

definition formatISO8601 :: "Timestamp \<Rightarrow> string" where
  "formatISO8601 t =
     pad4 (year t) @ ''-'' @ pad2 (month t) @ ''-'' @ pad2 (day t) @ ''T''
     @ pad2 (hour t) @ '':'' @ pad2 (minute t) @ '':'' @ pad2 (second t) @ ''Z''"

subsection \<open>Key records and the four operations\<close>

text \<open>
  Modelled from the spec: the error kinds of its section 7 (the keystore's errors are
  missing with it). The spec names no kind for a request that breaks a constraint of
  \<open>StoreKey\<close> (an empty id, a key that does not decode); \<open>InvalidRequest\<close> stands for it.
\<close>

datatype ErrorKind =
  NotFound | Conflict | PermissionDenied | ResolutionFailed | VerificationFailed
  | Cancelled | ConfigurationError | InvalidRequest

text \<open>
  Modelled from the spec: an error of the keystore, a kind and a message (missing with
  the keystore).
\<close>

record KeyStoreError =
  kind :: ErrorKind
  message :: string

text \<open>
  Modelled from the spec: the Key Record of its data model (missing with the keystore):
  key id, type tag, controller, raw key bytes, revocation flag and revocation timestamp,
  which is the empty string until the key is revoked.
\<close>

record KeyRecord =
  ID :: string
  KeyType :: string
  Controller :: string
  KeyBytes :: "byte list"
  IsRevoked :: bool
  RevocationTime :: string

text \<open>
  Modelled from the spec: the Key Record Store, \<open>get\<close> and \<open>put\<close> by key id (missing
  with the keystore).
\<close>

type_synonym KeyRecordStore = "string \<rightharpoonup> KeyRecord"

text \<open>
  Modelled from the spec: what \<open>GetKey\<close> returns, with the field names the tests read
  (\<^verbatim>\<open>keyResponse.Key\<close>, \<^verbatim>\<open>.Revoked\<close>, \<^verbatim>\<open>.RevokedAt\<close>); the type is missing with the
  keystore.
\<close>

record GetKeyResponse =
  Key :: "byte list"
  Revoked :: bool
  RevokedAt :: string

text \<open>
  Modelled from the spec: \<open>StoreKey(id, type, controller, privateKeyEncoded)\<close>, missing
  with the keystore. The id must not be empty; an id that is already stored is refused
  as a conflict (the spec's default, overwrite not allowed); the key is decoded from its
  transport encoding; a new record with \<open>revoked = false\<close> is written. Every operation
  returns the store as it leaves it.
\<close>

definition StoreKey ::
  "KeyRecordStore \<Rightarrow> string \<Rightarrow> string \<Rightarrow> string \<Rightarrow> string \<Rightarrow>
     KeyStoreError option \<times> KeyRecordStore" where
  "StoreKey st keyID keyType controller privateKeyEncoded =
     (if keyID = [] then
        (Some \<lparr>kind = InvalidRequest, message = ''key id must not be empty''\<rparr>, st)
      else case st keyID of
        Some existing \<Rightarrow>
          (Some \<lparr>kind = Conflict, message = ''key already stored: '' @ keyID\<rparr>, st)
      | None \<Rightarrow>
          (case base58_Decode privateKeyEncoded of
             Inl err \<Rightarrow>
               (Some \<lparr>kind = InvalidRequest,
                       message = ''could not decode key: '' @ Error err\<rparr>, st)
           | Inr raw \<Rightarrow>
               (None, st(keyID \<mapsto> \<lparr>ID = keyID, KeyType = keyType, Controller = controller,
                                  KeyBytes = raw, IsRevoked = False, RevocationTime = ''''\<rparr>))))"

text \<open>
  Modelled from the spec: \<open>GetKey(id)\<close>, missing with the keystore: the raw key bytes,
  the revocation flag and the revocation timestamp, or NotFound.
\<close>

definition GetKey ::
  "KeyRecordStore \<Rightarrow> string \<Rightarrow>
     (GetKeyResponse option \<times> KeyStoreError option) \<times> KeyRecordStore" where
  "GetKey st keyID =
     (case st keyID of
        None \<Rightarrow> ((None, Some \<lparr>kind = NotFound, message = ''key not found: '' @ keyID\<rparr>), st)
      | Some r \<Rightarrow>
          ((Some \<lparr>Key = KeyBytes r, Revoked = IsRevoked r, RevokedAt = RevocationTime r\<rparr>,
            None), st))"

text \<open>
  Modelled from the spec: the two behaviours it allows for \<open>RevokeKey\<close> on a key that is
  already revoked: succeed without effect, or surface the condition as an error.
\<close>

datatype RevokePolicy = Idempotent | SurfaceAlreadyRevoked

text \<open>
  Modelled from the spec: \<open>RevokeKey(id)\<close>, missing with the keystore. NotFound when
  the id is absent; on the first revocation the record is stamped with the clock's
  reading \<open>now\<close> in the fixed format and written back; on a key that is revoked
  already nothing is written, and the policy decides between success and an error.
\<close>

definition RevokeKey ::
  "RevokePolicy \<Rightarrow> Timestamp \<Rightarrow> KeyRecordStore \<Rightarrow> string \<Rightarrow>
     KeyStoreError option \<times> KeyRecordStore" where
  "RevokeKey policy now st keyID =
     (case st keyID of
        None \<Rightarrow> (Some \<lparr>kind = NotFound, message = ''key not found: '' @ keyID\<rparr>, st)
      | Some r \<Rightarrow>
          if IsRevoked r then
            (case policy of
               Idempotent \<Rightarrow> (None, st)
             | SurfaceAlreadyRevoked \<Rightarrow>
                 (Some \<lparr>kind = Conflict, message = ''key already revoked: '' @ keyID\<rparr>, st))
          else
            (None, st(keyID \<mapsto> r\<lparr>IsRevoked := True, RevocationTime := formatISO8601 now\<rparr>)))"

text \<open>
  Modelled from the spec: \<open>Sign(id, payload)\<close>, missing with the keystore. NotFound
  when the id is absent; PermissionDenied with the message \<open>cannot use revoked key\<close>
  and the id when the key is revoked; otherwise the signer built from the key type and
  the raw bytes signs the payload. The signer belongs to the cryptographic library and
  is a parameter.
\<close>

definition Sign ::
  "(string \<Rightarrow> byte list \<Rightarrow> 'p \<Rightarrow> 'sig option \<times> KeyStoreError option) \<Rightarrow>
     KeyRecordStore \<Rightarrow> string \<Rightarrow> 'p \<Rightarrow>
     ('sig option \<times> KeyStoreError option) \<times> KeyRecordStore" where
  "Sign signer st keyID payload =
     (case st keyID of
        None \<Rightarrow> ((None, Some \<lparr>kind = NotFound, message = ''key not found: '' @ keyID\<rparr>), st)
      | Some r \<Rightarrow>
          if IsRevoked r then
            ((None, Some \<lparr>kind = PermissionDenied,
                           message = ''cannot use revoked key: '' @ keyID\<rparr>), st)
          else (signer (KeyType r) (KeyBytes r) payload, st))"

text \<open>
  Modelled from the spec: a call of one of the four operations (missing with the
  keystore). Each revocation carries the clock's reading at its moment.
\<close>

datatype 'p Operation =
  CallStoreKey string string string string
  | CallGetKey string
  | CallRevokeKey Timestamp string
  | CallSign string 'p

text \<open>
  Modelled from the spec: the store after one call (missing with the keystore); what the
  call returns is dropped.
\<close>

fun apply_Operation ::
  "RevokePolicy \<Rightarrow> (string \<Rightarrow> byte list \<Rightarrow> 'p \<Rightarrow> 'sig option \<times> KeyStoreError option) \<Rightarrow>
     KeyRecordStore \<Rightarrow> 'p Operation \<Rightarrow> KeyRecordStore" where
  "apply_Operation policy signer st (CallStoreKey keyID keyType controller encoded) =
     snd (StoreKey st keyID keyType controller encoded)"
| "apply_Operation policy signer st (CallGetKey keyID) = snd (GetKey st keyID)"
| "apply_Operation policy signer st (CallRevokeKey now keyID) = snd (RevokeKey policy now st keyID)"
| "apply_Operation policy signer st (CallSign keyID payload) = snd (Sign signer st keyID payload)"

text \<open>
  Modelled from the spec: the store after a sequence of calls, first call first (missing
  with the keystore).
\<close>

definition run_Operations ::
  "RevokePolicy \<Rightarrow> (string \<Rightarrow> byte list \<Rightarrow> 'p \<Rightarrow> 'sig option \<times> KeyStoreError option) \<Rightarrow>
     KeyRecordStore \<Rightarrow> 'p Operation list \<Rightarrow> KeyRecordStore" where
  "run_Operations policy signer st ops = foldl (apply_Operation policy signer) st ops"

section \<open>Properties of the integration helpers\<close>

lemma sdiv_100_eq_2: "(c::int) sdiv 100 = 2 \<longleftrightarrow> 200 \<le> c \<and> c \<le> 299"
proof (cases "0 \<le> c")
  case True
  then have "c sdiv 100 = c div 100"
    by (simp add: signed_divide_int_def sgn_if)
  then show ?thesis by auto
next
  case False
  then have "c sdiv 100 = - (- c div 100)"
    by (simp add: signed_divide_int_def sgn_if)
  moreover from False have "0 \<le> - c div 100"
    by (simp add: pos_imp_zdiv_nonneg_iff)
  ultimately show ?thesis using False by simp
qed

text \<open>
  C10. \<^verbatim>\<open>is2xxResponse\<close> is true exactly when the status code is outside 200..299.
  So \<^verbatim>\<open>get\<close> and \<^verbatim>\<open>put\<close>, once the request was sent and the body read, return the
  body with a nil error exactly for a status code in the 200s, and the empty string with
  an error for every other status code; and whenever they return a nil error, a response
  with a status code in the 200s was received and its body is what they return.
  (\<^verbatim>\<open>put\<close> does not return at all on data that is not JSON: it panics before any
  request is made.)
\<close>

theorem is2xxResponse_inverted:
  "(is2xxResponse c \<longleftrightarrow> \<not> (200 \<le> c \<and> c \<le> 299))
   \<and> (http_Get url = Inr resp \<and> Body resp = Inr body \<longrightarrow>
        get http_Get url =
          (if 200 \<le> StatusCode resp \<and> StatusCode resp \<le> 299 then (body, None)
           else ('''', Some (Errorf (''status code not in the 200s. body: '' @ body)))))
   \<and> (get http_Get url = (out, None) \<longrightarrow>
        (\<exists>r. http_Get url = Inr r \<and> Body r = Inr out
             \<and> 200 \<le> StatusCode r \<and> StatusCode r \<le> 299))
   \<and> (json_Compact json = Inr compact \<and> http_NewRequest url json = Inr req
        \<and> client_Do req = Inr resp \<and> Body resp = Inr body \<longrightarrow>
        put json_Compact http_NewRequest client_Do show_int url json =
          Returns
            (if 200 \<le> StatusCode resp \<and> StatusCode resp \<le> 299 then (body, None)
             else ('''', Some (Errorf (''status code '' @ show_int (StatusCode resp)
                                        @ '' not in the 200s. body: '' @ body)))))
   \<and> (put json_Compact http_NewRequest client_Do show_int url json = Returns (out, None) \<longrightarrow>
        (\<exists>q r. http_NewRequest url json = Inr q \<and> client_Do q = Inr r \<and> Body r = Inr out
             \<and> 200 \<le> StatusCode r \<and> StatusCode r \<le> 299))
   \<and> (put json_Compact http_NewRequest client_Do show_int url json = Panics \<longleftrightarrow>
        (\<exists>err. json_Compact json = Inl err))"
proof -
  have a: "is2xxResponse c \<longleftrightarrow> \<not> (200 \<le> c \<and> c \<le> 299)" for c
    by (simp add: is2xxResponse_def sdiv_100_eq_2)
  have b: "http_Get url = Inr resp \<and> Body resp = Inr body \<longrightarrow>
        get http_Get url =
          (if 200 \<le> StatusCode resp \<and> StatusCode resp \<le> 299 then (body, None)
           else ('''', Some (Errorf (''status code not in the 200s. body: '' @ body))))"
    by (simp add: get_def a)
  have c: "get http_Get url = (out, None) \<longrightarrow>
        (\<exists>r. http_Get url = Inr r \<and> Body r = Inr out
             \<and> 200 \<le> StatusCode r \<and> StatusCode r \<le> 299)"
    by (auto simp: get_def a split: sum.splits if_splits)
  have d: "json_Compact json = Inr compact \<and> http_NewRequest url json = Inr req
        \<and> client_Do req = Inr resp \<and> Body resp = Inr body \<longrightarrow>
        put json_Compact http_NewRequest client_Do show_int url json =
          Returns
            (if 200 \<le> StatusCode resp \<and> StatusCode resp \<le> 299 then (body, None)
             else ('''', Some (Errorf (''status code '' @ show_int (StatusCode resp)
                                        @ '' not in the 200s. body: '' @ body))))"
    by (simp add: put_def compactJSONOutput_def a)
  have e: "put json_Compact http_NewRequest client_Do show_int url json = Returns (out, None) \<longrightarrow>
        (\<exists>q r. http_NewRequest url json = Inr q \<and> client_Do q = Inr r \<and> Body r = Inr out
             \<and> 200 \<le> StatusCode r \<and> StatusCode r \<le> 299)"
    by (auto simp: put_def compactJSONOutput_def a split: sum.splits if_splits)
  have f: "put json_Compact http_NewRequest client_Do show_int url json = Panics \<longleftrightarrow>
        (\<exists>err. json_Compact json = Inl err)"
    by (auto simp: put_def compactJSONOutput_def split: sum.splits if_splits)
  from a b c d e f show ?thesis by blast
qed

text \<open>
  The theorem at a server that answers 200 with body \<open>ok\<close>, at one that answers 404, and
  at a \<^verbatim>\<open>put\<close> answered with 201 (\<open>-250\<close> shows the truncation: \<open>-250 / 100\<close> is
  \<open>-2\<close> in Go).
\<close>

theorem is2xxResponse_inverted_witness:
  "\<not> is2xxResponse 200 \<and> is2xxResponse 404 \<and> is2xxResponse (- 250)
   \<and> get (\<lambda>u. Inr \<lparr>StatusCode = 200, Body = Inr ''ok''\<rparr>) ''http://localhost:8080/v1/dids''
       = (''ok'', None)
   \<and> get (\<lambda>u. Inr \<lparr>StatusCode = 404, Body = Inr ''no''\<rparr>) ''http://localhost:8080/v1/dids''
       = ('''', Some (Errorf ''status code not in the 200s. body: no''))
   \<and> put Inr (\<lambda>u j. Inr ()) (\<lambda>r. Inr \<lparr>StatusCode = 201, Body = Inr ''made''\<rparr>) (\<lambda>i. ''201'')
       ''http://localhost:8080/v1/dids/key'' ''{}'' = Returns (''made'', None)"
proof -
  note code = is2xxResponse_inverted [THEN conjunct1]
  note get_ok = is2xxResponse_inverted [THEN conjunct2, THEN conjunct1, rule_format]
  note put_ok = is2xxResponse_inverted
    [THEN conjunct2, THEN conjunct2, THEN conjunct2, THEN conjunct1, rule_format]
  have "\<not> is2xxResponse 200" "is2xxResponse 404" "is2xxResponse (- 250)"
    using code [of 200] code [of 404] code [of "- 250"] by simp_all
  moreover have "get (\<lambda>u. Inr \<lparr>StatusCode = 200, Body = Inr ''ok''\<rparr>)
      ''http://localhost:8080/v1/dids'' = (''ok'', None)"
    using get_ok [of "\<lambda>u. Inr \<lparr>StatusCode = 200, Body = Inr ''ok''\<rparr>" _
        "\<lparr>StatusCode = 200, Body = Inr ''ok''\<rparr>" "''ok''"] by simp
  moreover have "get (\<lambda>u. Inr \<lparr>StatusCode = 404, Body = Inr ''no''\<rparr>)
      ''http://localhost:8080/v1/dids''
      = ('''', Some (Errorf ''status code not in the 200s. body: no''))"
    using get_ok [of "\<lambda>u. Inr \<lparr>StatusCode = 404, Body = Inr ''no''\<rparr>" _
        "\<lparr>StatusCode = 404, Body = Inr ''no''\<rparr>" "''no''"] by simp
  moreover have "put Inr (\<lambda>u j. Inr ()) (\<lambda>r. Inr \<lparr>StatusCode = 201, Body = Inr ''made''\<rparr>)
      (\<lambda>i. ''201'') ''http://localhost:8080/v1/dids/key'' ''{}'' = Returns (''made'', None)"
    using put_ok [where json_Compact = Inr and json = "''{}''" and compact = "''{}''"
        and http_NewRequest = "\<lambda>u j. Inr ()" and req = "()"
        and client_Do = "\<lambda>r. Inr \<lparr>StatusCode = 201, Body = Inr ''made''\<rparr>"
        and resp = "\<lparr>StatusCode = 201, Body = Inr ''made''\<rparr>" and body = "''made''"
        and show_int = "\<lambda>i. ''201''" and url = "''http://localhost:8080/v1/dids/key''"]
    by simp
  ultimately show ?thesis by simp
qed

section \<open>Properties of the DID service\<close>

text \<open>
  C7. \<^verbatim>\<open>Status\<close> reports NotReady exactly when the storage is nil or no handler is
  registered, reports Ready otherwise, and leaves the service as it was.
\<close>

theorem Status_ready_iff:
  "(Status_state (fst (Status s)) = StatusNotReady \<longleftrightarrow> storage s = None \<or> handlers s = [])
   \<and> (Status_state (fst (Status s)) = StatusReady \<longleftrightarrow> \<not> (storage s = None \<or> handlers s = []))
   \<and> snd (Status s) = s"
  by (simp add: Status_def)

lemma instantiateHandlerForMethod_unsupported:
  "method \<noteq> KeyMethod \<Longrightarrow>
     instantiateHandlerForMethod nk s method =
       (Some (Errorf (''unsupported DID method: '' @ method)), s)"
  by (simp add: instantiateHandlerForMethod_def)

lemma instantiateHandlerForMethod_cases:
  "instantiateHandlerForMethod nk s method = (None, s') \<Longrightarrow>
     method = KeyMethod \<and> snd (nk (storage s)) = None
     \<and> s' = s\<lparr>handlers := AList.update method (fst (nk (storage s))) (handlers s)\<rparr>"
  by (auto simp: instantiateHandlerForMethod_def split: if_splits prod.splits option.splits)

lemma instantiateAll_unsupported:
  "\<exists>m \<in> set ms. m \<noteq> KeyMethod \<Longrightarrow> \<exists>e s'. instantiateAll nk svc ms = (Some e, s')"
proof (induction ms arbitrary: svc)
  case Nil
  then show ?case by simp
next
  case (Cons m ms)
  obtain r svc' where step: "instantiateHandlerForMethod nk svc m = (r, svc')"
    by (cases "instantiateHandlerForMethod nk svc m")
  show ?case
  proof (cases r)
    case (Some err)
    with step show ?thesis by simp
  next
    case None
    with step have "m = KeyMethod"
      by (auto dest: instantiateHandlerForMethod_cases)
    with Cons.prems have "\<exists>m \<in> set ms. m \<noteq> KeyMethod" by simp
    from Cons.IH [OF this, of svc'] step None show ?thesis by simp
  qed
qed

lemma instantiateAll_success:
  "instantiateAll nk svc ms = (None, svc') \<Longrightarrow>
     fst ` set (handlers svc') = fst ` set (handlers svc) \<union> set ms
     \<and> (distinct (map fst (handlers svc)) \<longrightarrow> distinct (map fst (handlers svc')))
     \<and> storage svc' = storage svc
     \<and> (\<forall>m \<in> set ms. m = KeyMethod)"
proof (induction ms arbitrary: svc)
  case Nil
  then show ?case by simp
next
  case (Cons m ms)
  obtain r mid where step: "instantiateHandlerForMethod nk svc m = (r, mid)"
    by (cases "instantiateHandlerForMethod nk svc m")
  with Cons.prems have r: "r = None" and rest: "instantiateAll nk mid ms = (None, svc')"
    by (auto split: option.splits)
  from step r have m: "m = KeyMethod"
    and mid: "mid = svc\<lparr>handlers := AList.update m (fst (nk (storage svc))) (handlers svc)\<rparr>"
    by (auto dest: instantiateHandlerForMethod_cases)
  from mid have "fst ` set (handlers mid) = {m} \<union> fst ` set (handlers svc)"
    by (simp add: dom_update)
  moreover from mid have "distinct (map fst (handlers svc)) \<longrightarrow> distinct (map fst (handlers mid))"
    by (simp add: distinct_update)
  moreover from mid have "storage mid = storage svc" by simp
  ultimately show ?case using Cons.IH [OF rest] m by auto
qed

text \<open>
  C5. A list of methods that holds a name other than \<open>key\<close> makes \<^verbatim>\<open>NewDIDService\<close>
  fail as a whole: the returned service pointer is nil and the returned error is not,
  whatever the storage and the handler constructors do and wherever the name stands in
  the list.
\<close>

theorem NewDIDService_unsupported_fails:
  "\<exists>m \<in> set methods. m \<noteq> KeyMethod \<Longrightarrow>
     fst (NewDIDService NewDIDStorage NewKeyDIDHandler methods s) = None
     \<and> snd (NewDIDService NewDIDStorage NewKeyDIDHandler methods s) \<noteq> None"
proof -
  assume bad: "\<exists>m \<in> set methods. m \<noteq> KeyMethod"
  obtain st e where st: "NewDIDStorage s = (st, e)" by (cases "NewDIDStorage s")
  show ?thesis
  proof (cases e)
    case (Some err)
    with st show ?thesis by (simp add: NewDIDService_def)
  next
    case None
    from instantiateAll_unsupported [OF bad, of NewKeyDIDHandler "\<lparr>handlers = [], storage = st\<rparr>"]
    obtain e' s' where "instantiateAll NewKeyDIDHandler \<lparr>handlers = [], storage = st\<rparr> methods = (Some e', s')"
      by blast
    with st None show ?thesis by (simp add: NewDIDService_def)
  qed
qed

text \<open>The theorem at the list \<open>key, web, key\<close>: the error names \<open>web\<close>.\<close>

theorem NewDIDService_unsupported_fails_witness:
  "fst (NewDIDService (\<lambda>u. (Some (), None)) (\<lambda>st. ((), None)) [''key'', ''web'', ''key''] ()) = (None :: (unit, unit) Service option)
   \<and> snd (NewDIDService (\<lambda>u. (Some (), None)) (\<lambda>st. ((), None)) [''key'', ''web'', ''key''] ()) =
      Some (Wrap (Errorf ''unsupported DID method: web'') ''could not instantiate DID svc'')"
  using NewDIDService_unsupported_fails [of "[''key'', ''web'', ''key'']" "\<lambda>u. (Some (), None)" "\<lambda>st. ((), None)" "()"]
  by (simp add: NewDIDService_def instantiateHandlerForMethod_def KeyMethod_def)

text \<open>
  C6. When \<^verbatim>\<open>NewDIDService\<close> succeeds, \<^verbatim>\<open>GetSupportedMethods\<close> of the service it
  returns lists, as a set, exactly the requested methods, each of them once; and every
  requested method is then the supported \<open>key\<close> method.
\<close>

theorem GetSupportedMethods_exact:
  "NewDIDService NewDIDStorage NewKeyDIDHandler methods s = (Some svc, None) \<Longrightarrow>
     set (GetSupportedMethods svc) = set methods \<and> distinct (GetSupportedMethods svc)
     \<and> (\<forall>m \<in> set methods. m = KeyMethod)"
proof -
  assume ok: "NewDIDService NewDIDStorage NewKeyDIDHandler methods s = (Some svc, None)"
  obtain st e where st: "NewDIDStorage s = (st, e)" by (cases "NewDIDStorage s")
  with ok have e: "e = None" by (auto simp: NewDIDService_def split: option.splits)
  with ok st have "instantiateAll NewKeyDIDHandler \<lparr>handlers = [], storage = st\<rparr> methods = (None, svc)"
    by (auto simp: NewDIDService_def split: option.splits prod.splits)
  from instantiateAll_success [OF this] show ?thesis
    by (simp add: GetSupportedMethods_def)
qed

text \<open>The theorem at the list \<open>key, key\<close>: one handler is registered.\<close>

theorem GetSupportedMethods_exact_witness:
  "NewDIDService (\<lambda>u. (Some (), None)) (\<lambda>st. ((), None)) [''key'', ''key''] ()
     = (Some \<lparr>handlers = [(''key'', ())], storage = Some ()\<rparr>, None)
   \<and> set (GetSupportedMethods \<lparr>handlers = [(''key'', ())], storage = Some ()\<rparr>) = set [''key'', ''key'']
   \<and> distinct (GetSupportedMethods \<lparr>handlers = [(''key'', ()) :: Method \<times> unit], storage = Some ()\<rparr>)"
proof -
  have run: "NewDIDService (\<lambda>u. (Some (), None)) (\<lambda>st. ((), None)) [''key'', ''key''] ()
     = (Some \<lparr>handlers = [(''key'', ())], storage = Some ()\<rparr>, None)"
    by (simp add: NewDIDService_def instantiateHandlerForMethod_def KeyMethod_def)
  from GetSupportedMethods_exact [OF run] run show ?thesis by (simp add: KeyMethod_def)
qed

section \<open>Properties of resolution and verification\<close>

text \<open>
  Both functions return unless the resolver hands back a nil result with a nil error.
\<close>

lemma ResolveKeyForDID_returns:
  "(\<exists>res. ResolveKeyForDID GetKeyFromVM ctx resolver did kid = Returns res)
     \<longleftrightarrow> resolver ctx did [None] \<noteq> (None, None)"
  by (auto simp: ResolveKeyForDID_def split: prod.splits option.splits)

lemma VerifyTokenFromDID_returns:
  "(\<exists>res. VerifyTokenFromDID GetKeyFromVM NewVerifier Verify ctx resolver did kid token
            = Returns res)
     \<longleftrightarrow> resolver ctx did [] \<noteq> (None, None)"
  by (auto simp: VerifyTokenFromDID_def split: prod.splits option.splits)

text \<open>
  C9. \<^verbatim>\<open>ResolveKeyForDID\<close> never returns a partial result. Whenever it returns,
  a non-nil error comes with a nil public key, also when the key extraction of the SDK
  returned a key next to its error; a non-nil key comes with a nil error, and only when
  the resolver returned a result without error and the extraction returned that key
  without error. The returned error is non-nil exactly when the resolver or the
  extraction returned an error.
\<close>

theorem ResolveKeyForDID_no_partial_result:
  "ResolveKeyForDID GetKeyFromVM ctx resolver did kid = Returns (pubKey, err) \<Longrightarrow>
     (err \<noteq> None \<longrightarrow> pubKey = None)
     \<and> (pubKey \<noteq> None \<longrightarrow>
          err = None
          \<and> (\<exists>r. resolver ctx did [None] = (Some r, None) \<and> GetKeyFromVM (Document r) kid = (pubKey, None)))
     \<and> (err \<noteq> None \<longleftrightarrow>
          snd (resolver ctx did [None]) \<noteq> None
          \<or> (\<exists>r. resolver ctx did [None] = (Some r, None) \<and> snd (GetKeyFromVM (Document r) kid) \<noteq> None))"
  by (auto simp: ResolveKeyForDID_def split: prod.splits option.splits)

text \<open>
  The theorem at a resolver that knows one identity with the key \<open>key-1\<close>, and an
  extraction that returns a stale key next to its error: asked for \<open>key-2\<close> the function
  returns the error and a nil key, asked for \<open>key-1\<close> it returns the key.
\<close>

theorem ResolveKeyForDID_no_partial_result_witness:
  "ResolveKeyForDID
      (\<lambda>doc kid. if kid \<in> set doc then (Some kid, None)
                  else (Some ''stale'', Some (Errorf ''no such key'')))
      () (\<lambda>c d os. if d = ''did:key:z6Mk'' then (Some \<lparr>Document = [''key-1'']\<rparr>, None)
                    else (None, Some (Errorf ''unknown'')))
      ''did:key:z6Mk'' ''key-2''
     = Returns (None, Some (Wrap (Errorf ''no such key'')
          ''getting verification information from DID Document: did:key:z6Mk''))
   \<and> ResolveKeyForDID
      (\<lambda>doc kid. if kid \<in> set doc then (Some kid, None)
                  else (Some ''stale'', Some (Errorf ''no such key'')))
      () (\<lambda>c d os. if d = ''did:key:z6Mk'' then (Some \<lparr>Document = [''key-1'']\<rparr>, None)
                    else (None, Some (Errorf ''unknown'')))
      ''did:key:z6Mk'' ''key-1''
     = Returns (Some ''key-1'', None)
   \<and> (\<exists>r. (if ''did:key:z6Mk'' = ''did:key:z6Mk''
             then (Some \<lparr>Document = [''key-1'']\<rparr>, None :: error option)
             else (None, Some (Errorf ''unknown''))) = (Some r, None)
          \<and> (if ''key-1'' \<in> set (Document r) then (Some ''key-1'', None)
              else (Some ''stale'', Some (Errorf ''no such key''))) = (Some ''key-1'', None))"
proof -
  let ?G = "\<lambda>doc kid. if kid \<in> set doc then (Some kid, None)
                  else (Some ''stale'', Some (Errorf ''no such key''))"
  let ?R = "\<lambda>c d os. if d = ''did:key:z6Mk'' then (Some \<lparr>Document = [''key-1'']\<rparr>, None)
                    else (None, Some (Errorf ''unknown''))"
  have bad: "ResolveKeyForDID ?G () ?R ''did:key:z6Mk'' ''key-2''
     = Returns (None, Some (Wrap (Errorf ''no such key'')
          ''getting verification information from DID Document: did:key:z6Mk''))"
    by (simp add: ResolveKeyForDID_def)
  have good: "ResolveKeyForDID ?G () ?R ''did:key:z6Mk'' ''key-1'' = Returns (Some ''key-1'', None)"
    by (simp add: ResolveKeyForDID_def)
  from ResolveKeyForDID_no_partial_result [OF good] bad good show ?thesis by simp
qed

lemma resolving_ne_getting:
  "Error (Wrap e1 (''resolving DID: '' @ d1))
     \<noteq> Error (Wrap e2 (''getting verification information from the DID document: '' @ d2))"
  by simp

lemma resolving_ne_verify:
  "Error (Wrap e1 (''resolving DID: '' @ d1))
     \<noteq> Error (LoggingErrorMsg e2 ''could not verify the application's signature'')"
  by (simp add: LoggingErrorMsg_def)

lemma getting_ne_verify:
  "Error (Wrap e1 (''getting verification information from the DID document: '' @ d1))
     \<noteq> Error (LoggingErrorMsg e2 ''could not verify the application's signature'')"
  by (simp add: LoggingErrorMsg_def)

text \<open>
  The failure of \<^verbatim>\<open>VerifyTokenFromDID\<close> that is left: the verifier cannot be built.
  Its message differs from the other three as well.
\<close>

lemma VerifyTokenFromDID_verifier_fails:
  "resolver ctx did [] = (Some r, None) \<Longrightarrow> GetKeyFromVM (Document r) kid = (pk, None) \<Longrightarrow>
     NewVerifier did kid pk = (v, Some e) \<Longrightarrow>
     VerifyTokenFromDID GetKeyFromVM NewVerifier Verify ctx resolver did kid token
       = Returns (Some (LoggingErrorMsg e ''could not create application verifier''))"
  by (simp add: VerifyTokenFromDID_def)

lemma create_ne_others:
  "Error (LoggingErrorMsg e1 ''could not create application verifier'')
     \<noteq> Error (Wrap e2 (''resolving DID: '' @ d2))"
  "Error (LoggingErrorMsg e1 ''could not create application verifier'')
     \<noteq> Error (Wrap e2 (''getting verification information from the DID document: '' @ d2))"
  "Error (LoggingErrorMsg e1 ''could not create application verifier'')
     \<noteq> Error (LoggingErrorMsg e2 ''could not verify the application's signature'')"
  by (simp_all add: LoggingErrorMsg_def)

text \<open>
  C8. \<^verbatim>\<open>VerifyTokenFromDID\<close> tells its failures apart. When the resolver returns an
  error, the result is that error wrapped with \<open>resolving DID: \<close> and the identity
  string. When the resolver succeeds and the key extraction for the key id returns an
  error, the result is that error wrapped as a failure to get the verification
  information from the document. When resolution, extraction and the construction of the
  verifier succeed and the verifier rejects the token, the result is the verifier's
  error wrapped as a failed signature verification. When the verifier accepts the token,
  the result is nil. The messages of the three failures differ from each other whatever
  their causes and identities are, from their first character on.
\<close>

theorem VerifyTokenFromDID_failures:
  "(resolver ctx did [] = (res, Some e) \<longrightarrow>
      VerifyTokenFromDID GetKeyFromVM NewVerifier Verify ctx resolver did kid token
        = Returns (Some (Wrap e (''resolving DID: '' @ did)))
      \<and> Error (Wrap e (''resolving DID: '' @ did)) = ''resolving DID: '' @ did @ '': '' @ Error e)
   \<and> (resolver ctx did [] = (Some r, None) \<and> GetKeyFromVM (Document r) kid = (pk, Some e) \<longrightarrow>
      VerifyTokenFromDID GetKeyFromVM NewVerifier Verify ctx resolver did kid token
        = Returns (Some (Wrap e
            (''getting verification information from the DID document: '' @ did))))
   \<and> (resolver ctx did [] = (Some r, None) \<and> GetKeyFromVM (Document r) kid = (pk, None)
        \<and> NewVerifier did kid pk = (v, None) \<and> Verify v token = Some e \<longrightarrow>
      VerifyTokenFromDID GetKeyFromVM NewVerifier Verify ctx resolver did kid token
        = Returns (Some (LoggingErrorMsg e ''could not verify the application's signature'')))
   \<and> (resolver ctx did [] = (Some r, None) \<and> GetKeyFromVM (Document r) kid = (pk, None)
        \<and> NewVerifier did kid pk = (v, None) \<and> Verify v token = None \<longrightarrow>
      VerifyTokenFromDID GetKeyFromVM NewVerifier Verify ctx resolver did kid token = Returns None)
   \<and> Error (Wrap e1 (''resolving DID: '' @ d1))
        \<noteq> Error (Wrap e2 (''getting verification information from the DID document: '' @ d2))
   \<and> Error (Wrap e1 (''resolving DID: '' @ d1))
        \<noteq> Error (LoggingErrorMsg e2 ''could not verify the application's signature'')
   \<and> Error (Wrap e1 (''getting verification information from the DID document: '' @ d1))
        \<noteq> Error (LoggingErrorMsg e2 ''could not verify the application's signature'')"
proof -
  have a: "resolver ctx did [] = (res, Some e) \<longrightarrow>
      VerifyTokenFromDID GetKeyFromVM NewVerifier Verify ctx resolver did kid token
        = Returns (Some (Wrap e (''resolving DID: '' @ did)))
      \<and> Error (Wrap e (''resolving DID: '' @ did)) = ''resolving DID: '' @ did @ '': '' @ Error e"
    by (simp add: VerifyTokenFromDID_def split: option.splits)
  have b: "resolver ctx did [] = (Some r, None) \<and> GetKeyFromVM (Document r) kid = (pk, Some e) \<longrightarrow>
      VerifyTokenFromDID GetKeyFromVM NewVerifier Verify ctx resolver did kid token
        = Returns (Some (Wrap e
            (''getting verification information from the DID document: '' @ did)))"
    by (simp add: VerifyTokenFromDID_def)
  have c: "resolver ctx did [] = (Some r, None) \<and> GetKeyFromVM (Document r) kid = (pk, None)
        \<and> NewVerifier did kid pk = (v, None) \<and> Verify v token = Some e \<longrightarrow>
      VerifyTokenFromDID GetKeyFromVM NewVerifier Verify ctx resolver did kid token
        = Returns (Some (LoggingErrorMsg e ''could not verify the application's signature''))"
    by (simp add: VerifyTokenFromDID_def)
  have d: "resolver ctx did [] = (Some r, None) \<and> GetKeyFromVM (Document r) kid = (pk, None)
        \<and> NewVerifier did kid pk = (v, None) \<and> Verify v token = None \<longrightarrow>
      VerifyTokenFromDID GetKeyFromVM NewVerifier Verify ctx resolver did kid token = Returns None"
    by (simp add: VerifyTokenFromDID_def)
  from a b c d resolving_ne_getting resolving_ne_verify getting_ne_verify
  show ?thesis by blast
qed

text \<open>
  The theorem at a resolver that knows \<open>did:key:alice\<close> with the key \<open>k1\<close>, and a verifier
  that accepts the token equal to the key: an unknown identity, an unknown key id, a
  token that is not the key, and the token that is.
\<close>

theorem VerifyTokenFromDID_failures_witness:
  "VerifyTokenFromDID
      (\<lambda>doc kid. case map_of doc kid of Some k \<Rightarrow> (Some k, None)
                  | None \<Rightarrow> (None, Some (Errorf ''no verification method'')))
      (\<lambda>d k pk. (pk, None))
      (\<lambda>v tok. if v = Some tok then None else Some (Errorf ''bad signature''))
      () (\<lambda>c d (os::unit option list). if d = ''did:key:alice'' then (Some \<lparr>Document = [(''k1'', 7::nat)]\<rparr>, None)
                    else (None, Some (Errorf ''not found'')))
      ''did:key:bob'' ''k1'' 7
     = Returns (Some (Wrap (Errorf ''not found'') ''resolving DID: did:key:bob''))
   \<and> VerifyTokenFromDID
      (\<lambda>doc kid. case map_of doc kid of Some k \<Rightarrow> (Some k, None)
                  | None \<Rightarrow> (None, Some (Errorf ''no verification method'')))
      (\<lambda>d k pk. (pk, None))
      (\<lambda>v tok. if v = Some tok then None else Some (Errorf ''bad signature''))
      () (\<lambda>c d (os::unit option list). if d = ''did:key:alice'' then (Some \<lparr>Document = [(''k1'', 7::nat)]\<rparr>, None)
                    else (None, Some (Errorf ''not found'')))
      ''did:key:alice'' ''k2'' 7
     = Returns (Some (Wrap (Errorf ''no verification method'')
          ''getting verification information from the DID document: did:key:alice''))
   \<and> VerifyTokenFromDID
      (\<lambda>doc kid. case map_of doc kid of Some k \<Rightarrow> (Some k, None)
                  | None \<Rightarrow> (None, Some (Errorf ''no verification method'')))
      (\<lambda>d k pk. (pk, None))
      (\<lambda>v tok. if v = Some tok then None else Some (Errorf ''bad signature''))
      () (\<lambda>c d (os::unit option list). if d = ''did:key:alice'' then (Some \<lparr>Document = [(''k1'', 7::nat)]\<rparr>, None)
                    else (None, Some (Errorf ''not found'')))
      ''did:key:alice'' ''k1'' 8
     = Returns (Some (Wrap (Errorf ''bad signature'')
          ''could not verify the application's signature''))
   \<and> VerifyTokenFromDID
      (\<lambda>doc kid. case map_of doc kid of Some k \<Rightarrow> (Some k, None)
                  | None \<Rightarrow> (None, Some (Errorf ''no verification method'')))
      (\<lambda>d k pk. (pk, None))
      (\<lambda>v tok. if v = Some tok then None else Some (Errorf ''bad signature''))
      () (\<lambda>c d (os::unit option list). if d = ''did:key:alice'' then (Some \<lparr>Document = [(''k1'', 7::nat)]\<rparr>, None)
                    else (None, Some (Errorf ''not found'')))
      ''did:key:alice'' ''k1'' 7
     = Returns None"
  (is "?A \<and> ?B \<and> ?C \<and> ?D")
proof -
  let ?G = "\<lambda>doc kid. case map_of doc kid of Some k \<Rightarrow> (Some k, None)
                  | None \<Rightarrow> (None, Some (Errorf ''no verification method''))"
  let ?N = "\<lambda>(d::string) (k::string) (pk::nat option). (pk, None :: error option)"
  let ?V = "\<lambda>v tok. if v = Some tok then None else Some (Errorf ''bad signature'')"
  let ?R = "\<lambda>(c::unit) d (os::unit option list).
              if d = ''did:key:alice'' then (Some \<lparr>Document = [(''k1'', 7::nat)]\<rparr>, None)
              else (None, Some (Errorf ''not found''))"
  note resolve_fails = VerifyTokenFromDID_failures [THEN conjunct1, rule_format, THEN conjunct1]
  note key_missing = VerifyTokenFromDID_failures [THEN conjunct2, THEN conjunct1, rule_format]
  note bad_signature = VerifyTokenFromDID_failures
    [THEN conjunct2, THEN conjunct2, THEN conjunct1, rule_format]
  note verified = VerifyTokenFromDID_failures
    [THEN conjunct2, THEN conjunct2, THEN conjunct2, THEN conjunct1, rule_format]
  have a: ?A
    using resolve_fails [of ?R "()" "''did:key:bob''" None "Errorf ''not found''" ?G ?N ?V "''k1''" 7]
    by simp
  have b: ?B
    using key_missing [of ?R "()" "''did:key:alice''" "\<lparr>Document = [(''k1'', 7::nat)]\<rparr>" ?G
        "''k2''" None "Errorf ''no verification method''" ?N ?V 7]
    by simp
  have c: ?C
    using bad_signature [of ?R "()" "''did:key:alice''" "\<lparr>Document = [(''k1'', 7::nat)]\<rparr>" ?G
        "''k1''" "Some 7" ?N "Some 7" ?V 8 "Errorf ''bad signature''"]
    by (simp add: LoggingErrorMsg_def)
  have d: ?D
    using verified [of ?R "()" "''did:key:alice''" "\<lparr>Document = [(''k1'', 7::nat)]\<rparr>" ?G
        "''k1''" "Some 7" ?N "Some 7" ?V 7]
    by simp
  from a b c d show ?thesis by blast
qed


section \<open>Properties of the transport encoding\<close>

subsection \<open>Digits\<close>

lemma from_digits_snoc: "from_digits b (ds @ [d]) = from_digits b ds * b + d"
  by (simp add: from_digits_def)

lemma from_digits_Nil: "from_digits b [] = 0"
  by (simp add: from_digits_def)

lemma from_digits_zeros: "from_digits b (replicate z 0 @ ds) = from_digits b ds"
proof (induction ds rule: rev_induct)
  case Nil
  show ?case by (induction z) (simp_all add: from_digits_def)
next
  case (snoc d ds)
  have "from_digits b (replicate z 0 @ ds @ [d]) = from_digits b ((replicate z 0 @ ds) @ [d])"
    by simp
  also have "\<dots> = from_digits b (replicate z 0 @ ds) * b + d"
    by (rule from_digits_snoc)
  finally show ?case using snoc.IH by (simp add: from_digits_snoc)
qed

lemma from_to_digits: "2 \<le> b \<Longrightarrow> from_digits b (to_digits b n) = n"
proof (induction b n rule: to_digits.induct)
  case (1 b n)
  show ?case
  proof (cases "n = 0")
    case True
    then show ?thesis by (simp add: to_digits.simps from_digits_Nil)
  next
    case False
    with 1 have "from_digits b (to_digits b (n div b)) = n div b" by simp
    with False 1(2) show ?thesis
      by (subst to_digits.simps) (simp add: from_digits_snoc)
  qed
qed

lemma to_digits_less: "d \<in> set (to_digits b n) \<Longrightarrow> d < b"
proof (induction b n rule: to_digits.induct)
  case (1 b n)
  show ?case
  proof (cases "n = 0 \<or> b < 2")
    case True
    with 1(2) show ?thesis by (simp add: to_digits.simps)
  next
    case False
    with 1(2) have "d \<in> set (to_digits b (n div b)) \<or> d = n mod b"
      by (subst (asm) to_digits.simps) auto
    with 1(1) False show ?thesis by auto
  qed
qed

lemma to_digits_hd: "2 \<le> b \<Longrightarrow> 0 < n \<Longrightarrow> to_digits b n \<noteq> [] \<and> hd (to_digits b n) \<noteq> 0"
proof (induction b n rule: to_digits.induct)
  case (1 b n)
  from 1(2,3) have unfold: "to_digits b n = to_digits b (n div b) @ [n mod b]"
    by (subst to_digits.simps) simp
  show ?case
  proof (cases "n div b = 0")
    case True
    with 1(2,3) have "n mod b = n" by (simp add: div_eq_0_iff)
    with True 1(3) unfold show ?thesis by (simp add: to_digits.simps)
  next
    case False
    with 1 have "to_digits b (n div b) \<noteq> [] \<and> hd (to_digits b (n div b)) \<noteq> 0" by simp
    with unfold show ?thesis by simp
  qed
qed

lemma from_digits_pos: "ds \<noteq> [] \<Longrightarrow> hd ds \<noteq> 0 \<Longrightarrow> 0 < b \<Longrightarrow> 0 < from_digits b ds"
proof (induction ds rule: rev_induct)
  case Nil
  then show ?case by simp
next
  case (snoc d ds)
  show ?case
  proof (cases "ds = []")
    case True
    with snoc.prems show ?thesis by (simp add: from_digits_def)
  next
    case False
    with snoc have "0 < from_digits b ds" by simp
    with snoc.prems(3) show ?thesis by (simp add: from_digits_snoc)
  qed
qed

lemma to_from_digits:
  "2 \<le> b \<Longrightarrow> \<forall>d \<in> set ds. d < b \<Longrightarrow> ds = [] \<or> hd ds \<noteq> 0 \<Longrightarrow>
     to_digits b (from_digits b ds) = ds"
proof (induction ds rule: rev_induct)
  case Nil
  then show ?case by (simp add: from_digits_Nil to_digits.simps)
next
  case (snoc d ds)
  from snoc.prems have d: "d < b" by simp
  from snoc.prems have hd: "ds = [] \<or> hd ds \<noteq> 0" by (cases ds) auto
  with snoc have IH: "to_digits b (from_digits b ds) = ds" by simp
  let ?n = "from_digits b ds * b + d"
  have pos: "0 < ?n"
  proof (cases "ds = []")
    case True
    with snoc.prems(3) show ?thesis by simp
  next
    case False
    with hd snoc.prems(1) have "0 < from_digits b ds" by (simp add: from_digits_pos)
    with snoc.prems(1) show ?thesis by simp
  qed
  from d have "?n div b = from_digits b ds" and "?n mod b = d" by simp_all
  with pos snoc.prems(1) IH have "to_digits b ?n = ds @ [d]"
    by (subst to_digits.simps) simp
  then show ?case by (simp add: from_digits_snoc)
qed

subsection \<open>The alphabet\<close>

lemma index_of_nth: "distinct xs \<Longrightarrow> i < length xs \<Longrightarrow> index_of (xs ! i) xs = Some i"
proof (induction xs arbitrary: i)
  case Nil
  then show ?case by simp
next
  case (Cons x xs)
  show ?case
  proof (cases i)
    case 0
    then show ?thesis by simp
  next
    case (Suc j)
    with Cons.prems have "xs ! j \<in> set xs" and "x \<notin> set xs" by simp_all
    then have "xs ! j \<noteq> x" by blast
    with Suc Cons show ?thesis by simp
  qed
qed

lemma b58_alphabet_length: "length b58_alphabet = 58"
  by (simp add: b58_alphabet_def)

lemma b58_alphabet_distinct: "distinct b58_alphabet"
  by (simp add: b58_alphabet_def)

lemma b58_alphabet_0: "b58_alphabet ! 0 = CHR ''1''"
  by (simp add: b58_alphabet_def)

lemma b58_index: "d < 58 \<Longrightarrow> index_of (b58_alphabet ! d) b58_alphabet = Some d"
  by (simp add: index_of_nth b58_alphabet_distinct b58_alphabet_length)

lemma b58_one_iff: "d < 58 \<Longrightarrow> b58_alphabet ! d = CHR ''1'' \<longleftrightarrow> d = 0"
  using nth_eq_iff_index_eq [OF b58_alphabet_distinct, of d 0]
  by (simp add: b58_alphabet_length b58_alphabet_0)

lemma those_map_Some: "those (map Some xs) = Some xs"
  by (induction xs) simp_all

lemma leading_zeros_split:
  "bs = replicate (length (takeWhile (\<lambda>x. x = 0) bs)) 0 @ dropWhile (\<lambda>x. x = 0) bs"
proof -
  have "takeWhile (\<lambda>x. x = 0) bs = replicate (length (takeWhile (\<lambda>x. x = 0) bs)) 0"
    by (induction bs) simp_all
  then show ?thesis
    using takeWhile_dropWhile_id [of "\<lambda>x. x = 0" bs] by simp
qed

lemma takeWhile_replicate_append:
  "ys = [] \<or> \<not> P (hd ys) \<Longrightarrow> P x \<Longrightarrow> takeWhile P (replicate z x @ ys) = replicate z x"
  by (induction z) (auto simp: takeWhile_eq_Nil_iff)

subsection \<open>Decoding what was encoded\<close>

lemma base58_round_trip:
  fixes bs :: "byte list"
  assumes "bs \<noteq> []"
  shows "base58_Decode (base58_Encode bs) = Inr bs"
proof -
  define z where "z = length (takeWhile (\<lambda>x. x = 0) bs)"
  define rest where "rest = dropWhile (\<lambda>x. x = 0) bs"
  define n where "n = from_digits 256 (map unat bs)"
  define ds where "ds = to_digits 58 n"
  have bs: "bs = replicate z 0 @ rest"
    unfolding z_def rest_def by (rule leading_zeros_split)
  have rest_hd: "rest = [] \<or> hd rest \<noteq> 0"
    unfolding rest_def using hd_dropWhile [of "\<lambda>x. x = 0" bs] by blast
  have "map unat bs = replicate z 0 @ map unat rest"
    by (subst bs) simp
  then have n: "n = from_digits 256 (map unat rest)"
    by (simp add: n_def from_digits_zeros)
  have enc: "base58_Encode bs = replicate z (CHR ''1'') @ map (\<lambda>d. b58_alphabet ! d) ds"
    by (simp add: base58_Encode_def z_def ds_def n_def)
  have ds_less: "\<forall>d \<in> set ds. d < 58"
    by (auto simp: ds_def dest: to_digits_less)
  have units: "\<forall>d \<in> set (map unat rest). d < 256"
  proof
    fix d assume "d \<in> set (map unat rest)"
    then obtain w :: byte where "d = unat w" by auto
    then show "d < 256" using unsigned_less [of w, where ?'a = nat] by simp
  qed
  have units_hd: "map unat rest = [] \<or> hd (map unat rest) \<noteq> 0"
    using rest_hd by (cases rest) (auto simp: unat_eq_0)
  have ds_hd: "ds = [] \<or> hd ds \<noteq> 0"
  proof (cases "n = 0")
    case True
    then show ?thesis by (simp add: ds_def to_digits.simps)
  next
    case False
    then show ?thesis using to_digits_hd [of 58 n] by (simp add: ds_def)
  qed
  have nonempty: "base58_Encode bs \<noteq> []"
  proof (cases "z = 0")
    case True
    with bs assms have "rest \<noteq> []" by simp
    with units_hd have "0 < n"
      unfolding n by (intro from_digits_pos) simp_all
    then have "ds \<noteq> []" using to_digits_hd [of 58 n] by (simp add: ds_def)
    then show ?thesis by (simp add: enc)
  next
    case False
    then show ?thesis by (simp add: enc)
  qed
  have "map (\<lambda>c. index_of c b58_alphabet) (base58_Encode bs)
          = map Some (replicate z 0 @ ds)"
    using ds_less by (simp add: enc b58_index b58_alphabet_0 [symmetric])
  then have digits: "those (map (\<lambda>c. index_of c b58_alphabet) (base58_Encode bs))
          = Some (replicate z 0 @ ds)"
    by (simp only: those_map_Some)
  have "map (\<lambda>d. b58_alphabet ! d) ds = [] \<or>
          \<not> (hd (map (\<lambda>d. b58_alphabet ! d) ds) = CHR ''1'')"
    using ds_hd ds_less by (cases ds) (auto simp: b58_one_iff)
  then have ones: "takeWhile (\<lambda>c. c = CHR ''1'') (base58_Encode bs) = replicate z (CHR ''1'')"
    unfolding enc by (rule takeWhile_replicate_append) simp
  have number: "from_digits 58 (replicate z 0 @ ds) = n"
    by (simp add: from_digits_zeros ds_def from_to_digits)
  have bytes: "to_digits 256 n = map unat rest"
    unfolding n using units units_hd by (intro to_from_digits) simp_all
  have "base58_Decode (base58_Encode bs) = Inr (replicate z 0 @ map of_nat (map unat rest))"
    using nonempty by (simp add: base58_Decode_def digits ones number bytes)
  also have "map of_nat (map unat rest) = rest"
    by (simp add: map_idI)
  finally show ?thesis using bs by simp
qed


section \<open>Properties of the key lifecycle service\<close>

lemma formatISO8601_length: "length (formatISO8601 t) = 20"
  by (simp add: formatISO8601_def pad2_def pad4_def)

lemma apply_Operation_revoked:
  "st i = Some r \<Longrightarrow> IsRevoked r \<Longrightarrow> apply_Operation policy signer st op i = Some r"
proof (cases op)
  case (CallStoreKey keyID keyType controller encoded)
  assume "st i = Some r"
  then show ?thesis
    unfolding CallStoreKey
    by (cases "keyID = i")
       (auto simp: StoreKey_def split: option.splits sum.splits)
next
  case (CallGetKey keyID)
  assume "st i = Some r"
  then show ?thesis unfolding CallGetKey by (simp add: GetKey_def split: option.splits)
next
  case (CallRevokeKey now keyID)
  assume "st i = Some r" and "IsRevoked r"
  then show ?thesis
    unfolding CallRevokeKey
    by (cases "keyID = i")
       (auto simp: RevokeKey_def split: option.splits RevokePolicy.splits)
next
  case (CallSign keyID payload)
  assume "st i = Some r"
  then show ?thesis unfolding CallSign by (simp add: Sign_def split: option.splits)
qed

lemma run_Operations_revoked:
  "st i = Some r \<Longrightarrow> IsRevoked r \<Longrightarrow> run_Operations policy signer st ops i = Some r"
proof (induction ops arbitrary: st)
  case Nil
  then show ?case by (simp add: run_Operations_def)
next
  case (Cons op ops)
  from Cons.prems have "apply_Operation policy signer st op i = Some r"
    by (rule apply_Operation_revoked)
  then have "run_Operations policy signer (apply_Operation policy signer st op) ops i = Some r"
    using Cons.prems(2) by (rule Cons.IH)
  then show ?case by (simp add: run_Operations_def)
qed

lemma RevokeKey_success_revoked:
  "fst (RevokeKey policy now st i) = None \<Longrightarrow>
     \<exists>r. snd (RevokeKey policy now st i) i = Some r \<and> IsRevoked r"
  by (auto simp: RevokeKey_def split: option.splits if_splits RevokePolicy.splits)

lemma Sign_revoked:
  "st i = Some r \<Longrightarrow> IsRevoked r \<Longrightarrow>
     Sign signer st i payload =
       ((None, Some \<lparr>kind = PermissionDenied, message = ''cannot use revoked key: '' @ i\<rparr>), st)"
  by (simp add: Sign_def)

text \<open>
  C1. Signing with a revoked key is refused. If the record of key id \<open>i\<close> is revoked,
  \<open>Sign(i, payload)\<close> returns no signature and a PermissionDenied error, for every
  payload; and once \<open>RevokeKey(i)\<close> has succeeded this stays so after any further
  sequence of operations. The message of the error is \<open>cannot use revoked key: \<close>
  followed by the id, so it contains \<open>cannot use revoked key\<close>.
\<close>

theorem Sign_revoked_denied:
  "(st i = Some r \<and> IsRevoked r \<longrightarrow>
      fst (Sign signer st i payload) =
        (None, Some \<lparr>kind = PermissionDenied, message = ''cannot use revoked key: '' @ i\<rparr>))
   \<and> (fst (RevokeKey policy now st i) = None \<longrightarrow>
      fst (Sign signer (run_Operations policy signer (snd (RevokeKey policy now st i)) ops)
             i payload) =
        (None, Some \<lparr>kind = PermissionDenied, message = ''cannot use revoked key: '' @ i\<rparr>))
   \<and> sublist ''cannot use revoked key'' (''cannot use revoked key: '' @ i)"
proof (intro conjI impI)
  assume "st i = Some r \<and> IsRevoked r"
  then show "fst (Sign signer st i payload) =
        (None, Some \<lparr>kind = PermissionDenied, message = ''cannot use revoked key: '' @ i\<rparr>)"
    by (simp add: Sign_revoked)
next
  assume "fst (RevokeKey policy now st i) = None"
  then obtain r' where r': "snd (RevokeKey policy now st i) i = Some r'" "IsRevoked r'"
    using RevokeKey_success_revoked by blast
  then have "run_Operations policy signer (snd (RevokeKey policy now st i)) ops i = Some r'"
    by (rule run_Operations_revoked)
  with r'(2) show "fst (Sign signer (run_Operations policy signer (snd (RevokeKey policy now st i)) ops)
             i payload) =
        (None, Some \<lparr>kind = PermissionDenied, message = ''cannot use revoked key: '' @ i\<rparr>)"
    by (simp add: Sign_revoked)
next
  have "prefix ''cannot use revoked key'' (''cannot use revoked key: '' @ i)"
    by simp
  then show "sublist ''cannot use revoked key'' (''cannot use revoked key: '' @ i)"
    by (rule prefix_imp_sublist)
qed

text \<open>
  The theorem on the scenario of \<^verbatim>\<open>TestRevokeKey\<close>: the key \<open>test-revocation-id\<close> is
  revoked, some calls follow, and signing \<open>sampleDataAsString\<close> is refused.
\<close>

theorem Sign_revoked_denied_witness:
  "fst (RevokeKey Idempotent
          \<lparr>year = 2023, month = 6, day = 23, hour = 0, minute = 0, second = 0\<rparr>
          (Map.empty(''test-revocation-id'' \<mapsto>
             \<lparr>ID = ''test-revocation-id'', KeyType = ''Ed25519'',
              Controller = ''test-revocation-controller'', KeyBytes = [0, 1, 2],
              IsRevoked = False, RevocationTime = ''''\<rparr>))
          ''test-revocation-id'') = None
   \<and> fst (Sign (\<lambda>t k p. (Some (k, p), None))
          (run_Operations Idempotent (\<lambda>t k p. (Some (k, p), None))
             (snd (RevokeKey Idempotent
                \<lparr>year = 2023, month = 6, day = 23, hour = 0, minute = 0, second = 0\<rparr>
                (Map.empty(''test-revocation-id'' \<mapsto>
                   \<lparr>ID = ''test-revocation-id'', KeyType = ''Ed25519'',
                    Controller = ''test-revocation-controller'', KeyBytes = [0, 1, 2],
                    IsRevoked = False, RevocationTime = ''''\<rparr>))
                ''test-revocation-id''))
             [CallGetKey ''test-revocation-id'',
              CallStoreKey ''test-revocation-id'' ''Ed25519'' ''other'' ''15T'',
              CallSign ''test-revocation-id'' ''first attempt''])
          ''test-revocation-id'' ''sampleDataAsString'')
       = (None, Some \<lparr>kind = PermissionDenied,
                        message = ''cannot use revoked key: test-revocation-id''\<rparr>)"
  (is "?revoked \<and> fst (Sign ?signer (run_Operations _ _ _ ?ops) _ ?payload) = ?err")
proof -
  have revoked: ?revoked
    by (simp add: RevokeKey_def)
  from Sign_revoked_denied [where signer = ?signer and payload = ?payload and ops = ?ops,
      THEN conjunct2, THEN conjunct1, rule_format, OF revoked]
  show ?thesis using revoked by simp
qed

text \<open>
  C2. For a stored key that is not revoked, \<open>RevokeKey(i)\<close> succeeds, and \<open>GetKey(i)\<close>
  then reports \<open>revoked = true\<close> and \<open>revokedAt\<close> equal to the clock's reading at the
  revocation in the fixed format, a string of 20 characters; a clock set to 23 June 2023,
  midnight UTC, gives exactly \<open>2023-06-23T00:00:00Z\<close>.
\<close>

theorem RevokeKey_stamps_clock:
  "st i = Some r \<Longrightarrow> \<not> IsRevoked r \<Longrightarrow>
     fst (RevokeKey policy now st i) = None
     \<and> fst (GetKey (snd (RevokeKey policy now st i)) i) =
         (Some \<lparr>Key = KeyBytes r, Revoked = True, RevokedAt = formatISO8601 now\<rparr>, None)
     \<and> length (formatISO8601 now) = 20
     \<and> formatISO8601 \<lparr>year = 2023, month = 6, day = 23, hour = 0, minute = 0, second = 0\<rparr>
         = ''2023-06-23T00:00:00Z''"
proof -
  assume stored: "st i = Some r" and active: "\<not> IsRevoked r"
  then have step: "RevokeKey policy now st i =
      (None, st(i \<mapsto> r\<lparr>IsRevoked := True, RevocationTime := formatISO8601 now\<rparr>))"
    by (simp add: RevokeKey_def)
  have example: "formatISO8601 \<lparr>year = 2023, month = 6, day = 23, hour = 0, minute = 0, second = 0\<rparr>
         = ''2023-06-23T00:00:00Z''"
    by (simp add: formatISO8601_def pad2_def pad4_def digit_char_def)
  from step example show ?thesis
    by (simp add: GetKey_def formatISO8601_length)
qed

text \<open>
  The theorem on the scenario of \<^verbatim>\<open>TestRevokeKey\<close>, with the mock clock of
  \<^verbatim>\<open>createKeyStoreService\<close>.
\<close>

theorem RevokeKey_stamps_clock_witness:
  "fst (RevokeKey Idempotent
          \<lparr>year = 2023, month = 6, day = 23, hour = 0, minute = 0, second = 0\<rparr>
          (Map.empty(''test-revocation-id'' \<mapsto>
             \<lparr>ID = ''test-revocation-id'', KeyType = ''Ed25519'',
              Controller = ''test-revocation-controller'', KeyBytes = [0, 1, 2],
              IsRevoked = False, RevocationTime = ''''\<rparr>))
          ''test-revocation-id'') = None
   \<and> fst (GetKey (snd (RevokeKey Idempotent
          \<lparr>year = 2023, month = 6, day = 23, hour = 0, minute = 0, second = 0\<rparr>
          (Map.empty(''test-revocation-id'' \<mapsto>
             \<lparr>ID = ''test-revocation-id'', KeyType = ''Ed25519'',
              Controller = ''test-revocation-controller'', KeyBytes = [0, 1, 2],
              IsRevoked = False, RevocationTime = ''''\<rparr>))
          ''test-revocation-id'')) ''test-revocation-id'')
       = (Some \<lparr>Key = [0, 1, 2], Revoked = True, RevokedAt = ''2023-06-23T00:00:00Z''\<rparr>, None)"
proof -
  let ?r = "\<lparr>ID = ''test-revocation-id'', KeyType = ''Ed25519'',
              Controller = ''test-revocation-controller'', KeyBytes = [0, 1, 2 :: byte],
              IsRevoked = False, RevocationTime = ''''\<rparr>"
  from RevokeKey_stamps_clock [of "Map.empty(''test-revocation-id'' \<mapsto> ?r)"
      "''test-revocation-id''" ?r Idempotent
      "\<lparr>year = 2023, month = 6, day = 23, hour = 0, minute = 0, second = 0\<rparr>"]
  show ?thesis by simp
qed

text \<open>
  C3. Storing key material \<open>k\<close> in its Base58 transport encoding under a fresh id
  succeeds, and \<open>GetKey\<close> of that id right after returns the key bytes \<open>k\<close>,
  \<open>revoked = false\<close> and an empty \<open>revokedAt\<close>. Valid key material has at least one
  byte (the encoding of no bytes is the empty string, which the decoder refuses), and
  \<open>StoreKey\<close> requires a non-empty id.
\<close>

theorem StoreKey_GetKey_round_trip:
  "k \<noteq> [] \<Longrightarrow> i \<noteq> [] \<Longrightarrow> st i = None \<Longrightarrow>
     fst (StoreKey st i keyType controller (base58_Encode k)) = None
     \<and> fst (GetKey (snd (StoreKey st i keyType controller (base58_Encode k))) i) =
         (Some \<lparr>Key = k, Revoked = False, RevokedAt = ''''\<rparr>, None)"
proof -
  assume key: "k \<noteq> []" and name: "i \<noteq> []" and fresh: "st i = None"
  from key have "base58_Decode (base58_Encode k) = Inr k"
    by (rule base58_round_trip)
  with name fresh have "StoreKey st i keyType controller (base58_Encode k) =
      (None, st(i \<mapsto> \<lparr>ID = i, KeyType = keyType, Controller = controller,
                         KeyBytes = k, IsRevoked = False, RevocationTime = ''''\<rparr>))"
    by (simp add: StoreKey_def)
  then show ?thesis by (simp add: GetKey_def)
qed

text \<open>
  The theorem on the scenario of \<^verbatim>\<open>TestStoreAndGetKey\<close>, with the three bytes 0, 1, 2
  as key material: their encoding is \<open>15T\<close>.
\<close>

theorem StoreKey_GetKey_round_trip_witness:
  "base58_Encode [0, 1, 2] = ''15T''
   \<and> fst (StoreKey Map.empty ''test-id'' ''Ed25519'' ''test-controller'' ''15T'') = None
   \<and> fst (GetKey (snd (StoreKey Map.empty ''test-id'' ''Ed25519'' ''test-controller'' ''15T''))
            ''test-id'')
       = (Some \<lparr>Key = [0, 1, 2], Revoked = False, RevokedAt = ''''\<rparr>, None)"
proof -
  have enc: "base58_Encode [0, 1, 2] = ''15T''"
    by (simp add: base58_Encode_def from_digits_def to_digits.simps b58_alphabet_def)
  from StoreKey_GetKey_round_trip [of "[0, 1, 2]" "''test-id''" Map.empty
      "''Ed25519''" "''test-controller''"] enc
  show ?thesis by simp
qed

text \<open>
  C4. Revocation is terminal. Once the record of key id \<open>i\<close> is revoked, no sequence of
  \<open>StoreKey\<close>, \<open>GetKey\<close>, \<open>RevokeKey\<close> and \<open>Sign\<close> calls changes the record:
  \<open>GetKey(i)\<close> keeps reporting \<open>revoked = true\<close> with the same \<open>revokedAt\<close>; and a
  second \<open>RevokeKey(i)\<close>, whatever the clock reads by then, leaves the store as it is.
\<close>

theorem revocation_terminal:
  "st i = Some r \<Longrightarrow> IsRevoked r \<Longrightarrow>
     run_Operations policy signer st ops i = Some r
     \<and> fst (GetKey (run_Operations policy signer st ops) i) =
         (Some \<lparr>Key = KeyBytes r, Revoked = True, RevokedAt = RevocationTime r\<rparr>, None)
     \<and> snd (RevokeKey policy now st i) = st"
proof -
  assume stored: "st i = Some r" and revoked: "IsRevoked r"
  then have "run_Operations policy signer st ops i = Some r"
    by (rule run_Operations_revoked)
  moreover from stored revoked have "snd (RevokeKey policy now st i) = st"
    by (simp add: RevokeKey_def split: RevokePolicy.splits)
  ultimately show ?thesis using revoked by (simp add: GetKey_def)
qed

text \<open>
  The theorem at a revoked key: a later revocation with another clock reading, an attempt
  to store the id again, a signing attempt and a read leave the record as it was.
\<close>

theorem revocation_terminal_witness:
  "fst (GetKey (run_Operations SurfaceAlreadyRevoked (\<lambda>t k p. (Some (k, p), None))
          (Map.empty(''test-revocation-id'' \<mapsto>
             \<lparr>ID = ''test-revocation-id'', KeyType = ''Ed25519'',
              Controller = ''test-revocation-controller'', KeyBytes = [0, 1, 2],
              IsRevoked = True, RevocationTime = ''2023-06-23T00:00:00Z''\<rparr>))
          [CallRevokeKey \<lparr>year = 2024, month = 1, day = 1, hour = 12, minute = 0, second = 0\<rparr>
             ''test-revocation-id'',
           CallStoreKey ''test-revocation-id'' ''Ed25519'' ''other'' ''15T'',
           CallSign ''test-revocation-id'' ''sampleDataAsString'',
           CallGetKey ''test-revocation-id''])
        ''test-revocation-id'')
     = (Some \<lparr>Key = [0, 1, 2], Revoked = True, RevokedAt = ''2023-06-23T00:00:00Z''\<rparr>, None)
   \<and> snd (RevokeKey SurfaceAlreadyRevoked
          \<lparr>year = 2024, month = 1, day = 1, hour = 12, minute = 0, second = 0\<rparr>
          (Map.empty(''test-revocation-id'' \<mapsto>
             \<lparr>ID = ''test-revocation-id'', KeyType = ''Ed25519'',
              Controller = ''test-revocation-controller'', KeyBytes = [0, 1, 2],
              IsRevoked = True, RevocationTime = ''2023-06-23T00:00:00Z''\<rparr>))
          ''test-revocation-id'')
     = Map.empty(''test-revocation-id'' \<mapsto>
             \<lparr>ID = ''test-revocation-id'', KeyType = ''Ed25519'',
              Controller = ''test-revocation-controller'', KeyBytes = [0, 1, 2],
              IsRevoked = True, RevocationTime = ''2023-06-23T00:00:00Z''\<rparr>)"
proof -
  let ?r = "\<lparr>ID = ''test-revocation-id'', KeyType = ''Ed25519'',
              Controller = ''test-revocation-controller'', KeyBytes = [0, 1, 2 :: byte],
              IsRevoked = True, RevocationTime = ''2023-06-23T00:00:00Z''\<rparr>"
  from revocation_terminal [of "Map.empty(''test-revocation-id'' \<mapsto> ?r)"
      "''test-revocation-id''" ?r SurfaceAlreadyRevoked "\<lambda>t k p. (Some (k, p), None)"
      "[CallRevokeKey \<lparr>year = 2024, month = 1, day = 1, hour = 12, minute = 0, second = 0\<rparr>
             ''test-revocation-id'',
           CallStoreKey ''test-revocation-id'' ''Ed25519'' ''other'' ''15T'',
           CallSign ''test-revocation-id'' ''sampleDataAsString'',
           CallGetKey ''test-revocation-id'']"
      "\<lparr>year = 2024, month = 1, day = 1, hour = 12, minute = 0, second = 0\<rparr>"]
  show ?thesis by simp
qed


end
